theory Spec2Isabelle
  imports Main "HOL-Library.Log_Nat"
begin

section \<open>Python values and exceptions\<close>

text \<open>
  The two modules \<^verbatim>\<open>heatmapper.py\<close> and \<^verbatim>\<open>topo.py\<close> are embedded function by
  function. A Python call either returns a value or raises; the model returns
  \<open>Inr\<close> of the value or \<open>Inl\<close> of the exception. \<open>ValueError\<close> stands for the class
  and its subclasses (\<^verbatim>\<open>JSONDecodeError\<close>, \<^verbatim>\<open>UnicodeDecodeError\<close>), which is what
  \<^verbatim>\<open>except ValueError\<close> catches. \<open>NotModelled\<close> is no Python exception: it marks a
  payload whose rows are not \<^verbatim>\<open>[number, number, int]\<close>, where the dynamically typed
  behaviour of the renderer is outside this development.
\<close>

datatype py_error =
    ZeroDivisionError | OverflowError | IndexError | ValueError | KeyError | TypeError
  | URLError | NotModelled

definition and_then :: "py_error + 'a \<Rightarrow> ('a \<Rightarrow> py_error + 'b) \<Rightarrow> py_error + 'b" where
  "and_then m f = (case m of Inl e \<Rightarrow> Inl e | Inr x \<Rightarrow> f x)"

text \<open>A \<^verbatim>\<open>for\<close> loop whose body may raise: the bodies run in order and the first
  exception ends the loop.\<close>

fun for_each :: "('a \<Rightarrow> py_error + 'b) \<Rightarrow> 'a list \<Rightarrow> py_error + 'b list" where
  "for_each body [] = Inr []"
| "for_each body (x # xs) =
     and_then (body x) (\<lambda>y. and_then (for_each body xs) (\<lambda>ys. Inr (y # ys)))"

text \<open>\<^verbatim>\<open>xs[i]\<close> for a non-negative index.\<close>

definition list_get :: "'a list \<Rightarrow> nat \<Rightarrow> py_error + 'a" where
  "list_get xs i = (if i < length xs then Inr (xs ! i) else Inl IndexError)"

text \<open>\<^verbatim>\<open>min(xs)\<close> and \<^verbatim>\<open>max(xs)\<close> of a list of ints.\<close>

definition py_min :: "int list \<Rightarrow> py_error + int" where
  "py_min xs = (case xs of [] \<Rightarrow> Inl ValueError | x # ys \<Rightarrow> Inr (fold min ys x))"

definition py_max :: "int list \<Rightarrow> py_error + int" where
  "py_max xs = (case xs of [] \<Rightarrow> Inl ValueError | x # ys \<Rightarrow> Inr (fold max ys x))"

section \<open>Floating point\<close>

text \<open>
  A finite Python float is an IEEE 754 binary64 number and is represented by its exact
  rational value. \<open>fl\<close> rounds a rational to the nearest binary64 value, ties to even:
  53 significant bits for a normal number, a fixed unit of \<open>2^-1074\<close> below \<open>2^-1022\<close>.
  \<open>to_double\<close> adds the overflow to an infinity. Operands in this program are finite, and
  no operation on them produces a NaN.
\<close>

definition pow2 :: "int \<Rightarrow> rat" where
  "pow2 e = (if 0 \<le> e then 2 ^ nat e else 1 / 2 ^ nat (- e))"

text \<open>\<open>ilog2 x\<close> is the binary exponent of a positive \<open>x\<close>: \<open>2^e \<le> x < 2^(e+1)\<close>.\<close>

definition ilog2 :: "rat \<Rightarrow> int" where
  "ilog2 x = (case quotient_of x of (p, q) \<Rightarrow>
     (let e = bitlen p - bitlen q in if x < pow2 e then e - 1 else e))"

definition round_half_even :: "rat \<Rightarrow> int" where
  "round_half_even x = (let n = \<lfloor>x\<rfloor>; d = x - of_int n in
     if d < 1 / 2 then n else if 1 / 2 < d then n + 1 else if even n then n else n + 1)"

definition quantum :: "rat \<Rightarrow> int" where
  "quantum x = max (ilog2 \<bar>x\<bar> - 52) (- 1074)"

definition fl :: "rat \<Rightarrow> rat" where
  "fl x = (if x = 0 then 0
           else of_int (round_half_even (x / pow2 (quantum x))) * pow2 (quantum x))"

datatype pyfloat = Fin rat | PInf | NInf

definition to_double :: "rat \<Rightarrow> pyfloat" where
  "to_double x = (let r = fl x in
     if pow2 1024 \<le> r then PInf else if r \<le> - pow2 1024 then NInf else Fin r)"

text \<open>\<^verbatim>\<open>a / b\<close> on two ints: the correctly rounded quotient; CPython raises where the
  quotient is out of the float range.\<close>

definition int_truediv :: "int \<Rightarrow> int \<Rightarrow> py_error + rat" where
  "int_truediv a b =
     (if b = 0 then Inl ZeroDivisionError
      else case to_double (of_int a / of_int b) of
             Fin r \<Rightarrow> Inr r
           | _ \<Rightarrow> Inl OverflowError)"

text \<open>The conversion of an int operand in mixed int/float arithmetic.\<close>

definition float_of_int :: "int \<Rightarrow> py_error + rat" where
  "float_of_int i = (case to_double (of_int i) of Fin r \<Rightarrow> Inr r | _ \<Rightarrow> Inl OverflowError)"

text \<open>\<^verbatim>\<open>a * b\<close> on two finite floats: no exception, an infinity on overflow.\<close>

definition float_mul :: "rat \<Rightarrow> rat \<Rightarrow> pyfloat" where
  "float_mul a b = to_double (a * b)"

text \<open>\<^verbatim>\<open>int(x)\<close> truncates towards zero and raises on an infinity.\<close>

definition int_of_float :: "pyfloat \<Rightarrow> py_error + int" where
  "int_of_float x = (case x of
       Fin r \<Rightarrow> Inr (if 0 \<le> r then \<lfloor>r\<rfloor> else \<lceil>r\<rceil>)
     | _ \<Rightarrow> Inl OverflowError)"

section \<open>heatmapper.calculate\_color\<close>

type_synonym color = "int \<times> int \<times> int"

text \<open>
  \<^verbatim>\<open>
  def calculate_color(height, min_height, max_height):
      if height < 0:
          difference = abs(min_height)
          return 0, 0, 255 - int((abs(height) / difference) * 255)
      else:
          difference = max_height
          return 0, 255 - int((height / difference) * 255), 0
  \<close>
  The three arguments are ints, as the docstring declares them. In the product the int
  \<^verbatim>\<open>255\<close> is converted to the float \<^verbatim>\<open>255.0\<close>.
\<close>

definition calculate_color :: "int \<Rightarrow> int \<Rightarrow> int \<Rightarrow> py_error + color" where
  "calculate_color height min_height max_height =
     (if height < 0 then
        (let difference = \<bar>min_height\<bar> in
         and_then (int_truediv \<bar>height\<bar> difference) (\<lambda>q.
         and_then (int_of_float (float_mul q 255)) (\<lambda>n.
         Inr (0, 0, 255 - n))))
      else
        (let difference = max_height in
         and_then (int_truediv height difference) (\<lambda>q.
         and_then (int_of_float (float_mul q 255)) (\<lambda>n.
         Inr (0, 255 - n, 0)))))"

section \<open>The world outside the two modules\<close>

text \<open>
  Numbers that reach the program from its caller or from JSON are Python ints or finite
  floats. \<open>num_value\<close> is the value Python's \<^verbatim>\<open>==\<close> and hashing compare.
\<close>

datatype pynum = PyInt int | PyFloat rat

fun num_value :: "pynum \<Rightarrow> rat" where
  "num_value (PyInt i) = of_int i"
| "num_value (PyFloat r) = r"

datatype json =
    JNull | JBool bool | JNum pynum | JStr string
  | JArr "json list" | JObj "(string \<times> json) list"

type_synonym rect = "(pyfloat \<times> pyfloat) \<times> (pyfloat \<times> pyfloat)"

text \<open>A PIL image under construction: its size, its background and the filled
  rectangles drawn on it, oldest first.\<close>

record image =
  im_size :: "int \<times> int"
  im_background :: color
  im_rectangles :: "(rect \<times> color) list"

text \<open>
  The file system is a map from file names to text. The events record, oldest first,
  every remote request, every file read and every file written.
\<close>

datatype event = Fetch string | Read string | Write string

record world =
  files :: "string \<rightharpoonup> string"
  events :: "event list"

text \<open>
  What the program calls and does not define is a parameter of the model:
  \<^item> \<open>image_new w h\<close>: \<^verbatim>\<open>Image.new('RGB', (w, h), ...)\<close> of PIL, which may raise;
  \<^item> \<open>image_save name im\<close>: \<^verbatim>\<open>im.save(name)\<close>, the encoded file or the exception; a
    failing save is taken to leave the file system as it was;
  \<^item> \<open>urlopen url\<close>: the decoded body that \<^verbatim>\<open>urllib.request.urlopen\<close> delivers, or
    the exception;
  \<^item> \<open>json_loads\<close> and \<open>json_dumps\<close>: the \<^verbatim>\<open>json\<close> module;
  \<^item> \<open>str_num\<close>: the text an f-string inserts for a number.
\<close>

record env =
  image_new :: "int \<Rightarrow> int \<Rightarrow> py_error + unit"
  image_save :: "string \<Rightarrow> image \<Rightarrow> py_error + string"
  urlopen :: "string \<Rightarrow> py_error + string"
  json_loads :: "string \<Rightarrow> py_error + json"
  json_dumps :: "json \<Rightarrow> string"
  str_num :: "pynum \<Rightarrow> string"

text \<open>A statement that may raise and may change the world; \<open>seq\<close> runs two of them in
  order and stops at the first exception.\<close>

type_synonym 'a action = "world \<Rightarrow> (py_error + 'a) \<times> world"

definition seq :: "'a action \<Rightarrow> ('a \<Rightarrow> 'b action) \<Rightarrow> 'b action" where
  "seq m f w = (case m w of (Inl e, w') \<Rightarrow> (Inl e, w') | (Inr x, w') \<Rightarrow> f x w')"

definition pure :: "py_error + 'a \<Rightarrow> 'a action" where
  "pure r w = (r, w)"

definition write_file :: "string \<Rightarrow> string \<Rightarrow> unit action" where
  "write_file name content w =
     (Inr (), w\<lparr>files := (files w)(name \<mapsto> content), events := events w @ [Write name]\<rparr>)"

section \<open>heatmapper.generate\_map\<close>

text \<open>A sample is one row \<^verbatim>\<open>[latitude, longitude, altitude]\<close>: the coordinates by their
  values, the altitude an int.\<close>

type_synonym sample = "rat \<times> rat \<times> int"

text \<open>\<^verbatim>\<open>i * wide\<close> for a loop index: the index is converted to a float (exactly, below
  \<open>2^53\<close>) and the product is rounded.\<close>

definition index_mul :: "nat \<Rightarrow> rat \<Rightarrow> pyfloat" where
  "index_mul i x = float_mul (fl (of_nat i)) x"

definition cell_box :: "rat \<Rightarrow> rat \<Rightarrow> nat \<Rightarrow> nat \<Rightarrow> rect" where
  "cell_box wide high i j =
     ((index_mul i wide, index_mul j high), (index_mul (i + 1) wide, index_mul (j + 1) high))"

text \<open>
  The body of the inner loop (lines 63-64):
  \<^verbatim>\<open>
  height_count = i + len(list(all_lng)) * j
  draw.rectangle(((i * wide, j * high), ((i + 1) * wide, (j + 1) * high)),
                 fill=calculate_color(all_heights[height_count],
                                      min(all_heights), max(all_heights)))
  \<close>
  The result is the rectangle handed to \<^verbatim>\<open>draw.rectangle\<close>.
\<close>

definition draw_cell ::
  "int list \<Rightarrow> nat \<Rightarrow> rat \<Rightarrow> rat \<Rightarrow> nat \<Rightarrow> nat \<Rightarrow> py_error + (rect \<times> color)" where
  "draw_cell all_heights n_lng wide high i j =
     (let height_count = i + n_lng * j in
      and_then (list_get all_heights height_count) (\<lambda>h.
      and_then (py_min all_heights) (\<lambda>lo.
      and_then (py_max all_heights) (\<lambda>hi.
      and_then (calculate_color h lo hi) (\<lambda>fill.
      Inr (cell_box wide high i j, fill))))))"

text \<open>
  The body of the \<^verbatim>\<open>try\<close> block (lines 43-68):
  \<^verbatim>\<open>
  all_lats = set(all_lats)
  all_lng = set(all_lng)
  high = height / len(all_lats)
  wide = width / len(all_lng)
  im = Image.new('RGB', (width, height), (255, 0, 0))
  draw = ImageDraw.Draw(im)
  for i in range(len(list(all_lng))):
      for j in range(len(list(all_lats))):
          ...
  im.save(filename)
  return True
  \<close>
\<close>

definition generate_map_try ::
  "env \<Rightarrow> sample list \<Rightarrow> int \<Rightarrow> int \<Rightarrow> string \<Rightarrow> bool action" where
  "generate_map_try env topo_data width height filename =
     (let all_lats = map fst topo_data;
          all_lng = map (fst \<circ> snd) topo_data;
          all_heights = map (snd \<circ> snd) topo_data;
          n_lat = card (set all_lats);
          n_lng = card (set all_lng)
      in
      seq (pure (int_truediv height (int n_lat))) (\<lambda>high.
      seq (pure (int_truediv width (int n_lng))) (\<lambda>wide.
      seq (pure (image_new env width height)) (\<lambda>_.
      seq (pure (for_each (\<lambda>i.
                   for_each (\<lambda>j. draw_cell all_heights n_lng wide high i j) [0..<n_lat])
                 [0..<n_lng])) (\<lambda>columns.
      seq (pure (image_save env filename
                   \<lparr>im_size = (width, height), im_background = (255, 0, 0),
                    im_rectangles = concat columns\<rparr>)) (\<lambda>content.
      seq (write_file filename content) (\<lambda>_.
      pure (Inr True))))))))"

text \<open>\<^verbatim>\<open>except ValueError: return False\<close>; every other exception leaves the function.\<close>

definition generate_map ::
  "env \<Rightarrow> sample list \<Rightarrow> int \<Rightarrow> int \<Rightarrow> string \<Rightarrow> bool action" where
  "generate_map env topo_data width height filename w =
     (case generate_map_try env topo_data width height filename w of
        (Inl ValueError, w') \<Rightarrow> (Inr False, w')
      | r \<Rightarrow> r)"

section \<open>heatmapper.generate\_map\_with\_coordinates: the strides\<close>

text \<open>The float literal \<^verbatim>\<open>0.0083333\<close>.\<close>

definition default_cell_degrees :: rat where
  "default_cell_degrees = fl (83333 / 10000000)"

definition as_float :: "pynum \<Rightarrow> py_error + rat" where
  "as_float n = (case n of PyInt i \<Rightarrow> float_of_int i | PyFloat r \<Rightarrow> Inr r)"

text \<open>\<^verbatim>\<open>a - b\<close> as the float operand of the division that follows it: the difference of
  two ints is exact and is converted by the division; any other difference is rounded.\<close>

definition sub_as_float :: "pynum \<Rightarrow> pynum \<Rightarrow> py_error + pyfloat" where
  "sub_as_float a b =
     (case (a, b) of
        (PyInt x, PyInt y) \<Rightarrow> and_then (float_of_int (x - y)) (\<lambda>d. Inr (Fin d))
      | _ \<Rightarrow> and_then (as_float a) (\<lambda>x. and_then (as_float b) (\<lambda>y. Inr (to_double (x - y)))))"

text \<open>\<^verbatim>\<open>a / b\<close> on floats, the divisor finite.\<close>

definition float_div :: "pyfloat \<Rightarrow> rat \<Rightarrow> py_error + pyfloat" where
  "float_div a b =
     (if b = 0 then Inl ZeroDivisionError
      else case a of
             Fin x \<Rightarrow> Inr (to_double (x / b))
           | PInf \<Rightarrow> Inr (if 0 < b then PInf else NInf)
           | NInf \<Rightarrow> Inr (if 0 < b then NInf else PInf))"

text \<open>\<^verbatim>\<open>(max - min) / 0.0083333 / image_height\<close>.\<close>

definition stride_quotient :: "pynum \<Rightarrow> pynum \<Rightarrow> int \<Rightarrow> py_error + pyfloat" where
  "stride_quotient max_v min_v image_height =
     and_then (sub_as_float max_v min_v) (\<lambda>d.
     and_then (float_div d default_cell_degrees) (\<lambda>q.
     and_then (float_of_int image_height) (\<lambda>h.
     float_div q h)))"

text \<open>\<^verbatim>\<open>max(1, r)\<close> keeps the int 1 unless \<^verbatim>\<open>r > 1\<close>.\<close>

definition py_max_1 :: "pyfloat \<Rightarrow> pyfloat" where
  "py_max_1 r = (case r of Fin x \<Rightarrow> if 1 < x then Fin x else Fin 1 | PInf \<Rightarrow> PInf | NInf \<Rightarrow> Fin 1)"

text \<open>
  Lines 129-133, once for each axis:
  \<^verbatim>\<open>
  if latitude_stride == 0:
      latitude_stride = int(max(1, (max_latitude - min_latitude) / 0.0083333 / image_height))
  \<close>
\<close>

definition effective_stride :: "pynum \<Rightarrow> pynum \<Rightarrow> pynum \<Rightarrow> int \<Rightarrow> py_error + pynum" where
  "effective_stride stride min_v max_v image_height =
     (if num_value stride = 0 then
        and_then (stride_quotient max_v min_v image_height) (\<lambda>r.
        and_then (int_of_float (py_max_1 r)) (\<lambda>n.
        Inr (PyInt n)))
      else Inr stride)"

text \<open>The stride as the specification words it, on the same quotient:
  \<^verbatim>\<open>max(1, round((max - min) / default_cell_degrees / image_height))\<close>.\<close>

definition spec_stride :: "pynum \<Rightarrow> pynum \<Rightarrow> pynum \<Rightarrow> int \<Rightarrow> py_error + pynum" where
  "spec_stride stride min_v max_v image_height =
     (if num_value stride = 0 then
        and_then (stride_quotient max_v min_v image_height) (\<lambda>r.
        case r of Fin x \<Rightarrow> Inr (PyInt (max 1 (round_half_even x)))
                | _ \<Rightarrow> Inl OverflowError)
      else Inr stride)"

section \<open>topo.py\<close>

text \<open>\<^verbatim>\<open>read_web(url)\<close>: one remote request.\<close>

definition read_web :: "env \<Rightarrow> string \<Rightarrow> string action" where
  "read_web env url w = (urlopen env url, w\<lparr>events := events w @ [Fetch url]\<rparr>)"

definition topo_url :: "env \<Rightarrow> pynum \<Rightarrow> pynum \<Rightarrow> pynum \<Rightarrow> pynum \<Rightarrow> pynum \<Rightarrow> pynum \<Rightarrow> string" where
  "topo_url env min_lat max_lat lat_step min_lng max_lng lng_step =
     ''http://coastwatch.pfeg.noaa.gov/erddap/griddap/usgsCeSrtm30v6.json?topo[(''
       @ str_num env max_lat @ ''):'' @ str_num env lat_step @ '':('' @ str_num env min_lat
       @ '')][('' @ str_num env min_lng @ ''):'' @ str_num env lng_step @ '':(''
       @ str_num env max_lng @ '')]''"

definition read_json_from_web ::
  "env \<Rightarrow> pynum \<Rightarrow> pynum \<Rightarrow> pynum \<Rightarrow> pynum \<Rightarrow> pynum \<Rightarrow> pynum \<Rightarrow> string action" where
  "read_json_from_web env min_lat max_lat lat_step min_lng max_lng lng_step =
     read_web env (topo_url env min_lat max_lat lat_step min_lng max_lng lng_step)"

text \<open>
  \<^verbatim>\<open>
  def read_json_from_file(filename):
      if os.path.exists(filename):
          with open(filename, "r", encoding='utf-8') as file:
              collected_data = json.load(file)
          return json.dumps(collected_data)
      else:
          return None
  \<close>
\<close>

definition read_json_from_file :: "env \<Rightarrow> string \<Rightarrow> string option action" where
  "read_json_from_file env filename w =
     (case files w filename of
        Some text \<Rightarrow>
          (and_then (json_loads env text) (\<lambda>collected_data.
             Inr (Some (json_dumps env collected_data))),
           w\<lparr>events := events w @ [Read filename]\<rparr>)
      | None \<Rightarrow> (Inr None, w))"

text \<open>\<^verbatim>\<open>obj[key]\<close> with a string key: a dict looks the key up, every other JSON value
  raises \<^verbatim>\<open>TypeError\<close>.\<close>

definition py_getitem :: "json \<Rightarrow> string \<Rightarrow> py_error + json" where
  "py_getitem obj key =
     (case obj of
        JObj items \<Rightarrow> (case map_of items key of Some v \<Rightarrow> Inr v | None \<Rightarrow> Inl KeyError)
      | _ \<Rightarrow> Inl TypeError)"

text \<open>
  \<^verbatim>\<open>
  def get_topo_data_from_string(data_string):
      obj = json.loads(data_string)
      return obj['table']['rows']
  \<close>
\<close>

definition get_topo_data_from_string :: "env \<Rightarrow> string \<Rightarrow> py_error + json" where
  "get_topo_data_from_string env data_string =
     and_then (json_loads env data_string) (\<lambda>obj.
     and_then (py_getitem obj ''table'') (\<lambda>table.
     py_getitem table ''rows''))"

section \<open>heatmapper.generate\_map\_with\_coordinates\<close>

definition cache_name :: "env \<Rightarrow> pynum \<Rightarrow> pynum \<Rightarrow> pynum \<Rightarrow> pynum \<Rightarrow> pynum \<Rightarrow> pynum \<Rightarrow> string" where
  "cache_name env min_latitude max_latitude latitude_stride
                  min_longitude max_longitude longitude_stride =
     ''topo_'' @ str_num env min_latitude @ '' - '' @ str_num env max_latitude @ '' - ''
       @ str_num env latitude_stride @ ''_'' @ str_num env min_longitude @ '' - ''
       @ str_num env max_longitude @ '' - '' @ str_num env longitude_stride @ ''.json''"

text \<open>\<^verbatim>\<open>len(topo_data)\<close> of a decoded JSON value.\<close>

definition py_len :: "json \<Rightarrow> py_error + nat" where
  "py_len v = (case v of
       JArr xs \<Rightarrow> Inr (length xs)
     | JObj items \<Rightarrow> Inr (length items)
     | JStr s \<Rightarrow> Inr (length s)
     | _ \<Rightarrow> Inl TypeError)"

text \<open>The rows as \<open>generate_map\<close> reads them, \<^verbatim>\<open>e[0]\<close>, \<^verbatim>\<open>e[1]\<close>, \<^verbatim>\<open>e[2]\<close>: a list of
  lists that start with two numbers and an int.\<close>

fun as_sample :: "json \<Rightarrow> sample option" where
  "as_sample (JArr (JNum lat # JNum lng # JNum (PyInt altitude) # rest)) =
     Some (num_value lat, num_value lng, altitude)"
| "as_sample _ = None"

definition as_samples :: "json \<Rightarrow> sample list option" where
  "as_samples v = (case v of
       JArr rows \<Rightarrow>
         if list_all (\<lambda>row. as_sample row \<noteq> None) rows
         then Some (map (\<lambda>row. the (as_sample row)) rows) else None
     | _ \<Rightarrow> None)"

text \<open>
  Lines 137-140: the remote service is queried only when the cache file is absent, and
  the text it delivers is written to the cache file.
  \<^verbatim>\<open>
  if not os.path.exists(cache):
      result = topo.read_json_from_web(min_latitude, max_latitude, latitude_stride,
                                       min_longitude, max_longitude, longitude_stride)
      with open(cache, 'w') as f:
          f.write(result)
  \<close>
\<close>

definition fetch_to_cache ::
  "env \<Rightarrow> string \<Rightarrow> pynum \<Rightarrow> pynum \<Rightarrow> pynum \<Rightarrow> pynum \<Rightarrow> pynum \<Rightarrow> pynum \<Rightarrow> unit action" where
  "fetch_to_cache env cache min_latitude max_latitude latitude_stride
                            min_longitude max_longitude longitude_stride w =
     (if files w cache = None
      then seq (read_json_from_web env min_latitude max_latitude latitude_stride
                  min_longitude max_longitude longitude_stride)
               (\<lambda>result. write_file cache result) w
      else (Inr (), w))"

text \<open>
  Lines 142-146. \<^verbatim>\<open>json.loads(None)\<close> raises \<^verbatim>\<open>TypeError\<close>; the text printed is not
  part of the model; the value of \<open>generate_map\<close> is dropped.
  \<^verbatim>\<open>
  topo_data = topo.get_topo_data_from_string(topo.read_json_from_file(cache))
  print("pikkus", len(topo_data))
  generate_map(topo_data, image_width, image_height, filename)
  return True
  \<close>
\<close>

definition render_from_cache :: "env \<Rightarrow> string \<Rightarrow> int \<Rightarrow> int \<Rightarrow> string \<Rightarrow> bool action" where
  "render_from_cache env cache image_width image_height filename =
     seq (read_json_from_file env cache) (\<lambda>text.
     seq (pure (case text of
                  None \<Rightarrow> Inl TypeError
                | Some data_string \<Rightarrow> get_topo_data_from_string env data_string))
       (\<lambda>topo_data.
     seq (pure (py_len topo_data)) (\<lambda>_.
     seq (case as_samples topo_data of
            None \<Rightarrow> pure (Inl NotModelled)
          | Some samples \<Rightarrow> generate_map env samples image_width image_height filename)
       (\<lambda>_.
     pure (Inr True)))))"

text \<open>
  Lines 122-146. The topo parameters are the six numbers of the tuple; the two strides
  are resolved first (lines 129-133), then the cache file is named:
  \<^verbatim>\<open>
  cache = f"topo_{min_latitude} - {max_latitude} - {latitude_stride}_..."
  \<close>
\<close>

type_synonym topo_params = "pynum \<times> pynum \<times> pynum \<times> pynum \<times> pynum \<times> pynum"

definition generate_map_with_coordinates ::
  "env \<Rightarrow> topo_params \<Rightarrow> int \<Rightarrow> int \<Rightarrow> string \<Rightarrow> bool action" where
  "generate_map_with_coordinates env topo_params image_width image_height filename =
     (case topo_params of
        (min_latitude, max_latitude, latitude_stride0,
         min_longitude, max_longitude, longitude_stride0) \<Rightarrow>
      seq (pure (effective_stride latitude_stride0 min_latitude max_latitude image_height))
        (\<lambda>latitude_stride.
      seq (pure (effective_stride longitude_stride0 min_longitude max_longitude image_height))
        (\<lambda>longitude_stride.
      let cache = cache_name env min_latitude max_latitude latitude_stride
                    min_longitude max_longitude longitude_stride in
      seq (fetch_to_cache env cache min_latitude max_latitude latitude_stride
             min_longitude max_longitude longitude_stride) (\<lambda>_.
      render_from_cache env cache image_width image_height filename))))"

text \<open>The URLs requested so far, oldest first.\<close>

definition fetches :: "world \<Rightarrow> string list" where
  "fetches w = concat (map (\<lambda>e. case e of Fetch url \<Rightarrow> [url] | _ \<Rightarrow> []) (events w))"

section \<open>An environment for the examples\<close>

text \<open>
  The examples below run the program in a small concrete environment: the imaging
  library rejects a negative size with \<^verbatim>\<open>ValueError\<close>, as PIL does, and stores a
  placeholder for the encoded image; every URL delivers one fixed payload; the JSON
  reader and writer cover the JSON texts built from objects, arrays, strings without
  escapes, ints, \<^verbatim>\<open>true\<close>, \<^verbatim>\<open>false\<close> and \<^verbatim>\<open>null\<close>, with the separators of
  \<^verbatim>\<open>json.dumps\<close>; numbers print in decimal.
\<close>

fun str_nat :: "nat \<Rightarrow> string" where
  "str_nat n = (if n < 10 then [char_of (48 + n)]
                else str_nat (n div 10) @ [char_of (48 + n mod 10)])"

definition str_int :: "int \<Rightarrow> string" where
  "str_int i = (if i < 0 then CHR ''-'' # str_nat (nat (- i)) else str_nat (nat i))"

fun demo_str_num :: "pynum \<Rightarrow> string" where
  "demo_str_num (PyInt i) = str_int i"
| "demo_str_num (PyFloat r) =
     (case quotient_of r of (p, q) \<Rightarrow> str_int p @ ''/'' @ str_int q)"

fun demo_dumps :: "json \<Rightarrow> string"
  and demo_dumps_list :: "json list \<Rightarrow> string"
  and demo_dumps_items :: "(string \<times> json) list \<Rightarrow> string" where
  "demo_dumps JNull = ''null''"
| "demo_dumps (JBool b) = (if b then ''true'' else ''false'')"
| "demo_dumps (JNum n) = demo_str_num n"
| "demo_dumps (JStr s) = [CHR 0x22] @ s @ [CHR 0x22]"
| "demo_dumps (JArr xs) = ''['' @ demo_dumps_list xs @ '']''"
| "demo_dumps (JObj items) = ''{'' @ demo_dumps_items items @ ''}''"
| "demo_dumps_list [] = []"
| "demo_dumps_list [x] = demo_dumps x"
| "demo_dumps_list (x # y # xs) = demo_dumps x @ '', '' @ demo_dumps_list (y # xs)"
| "demo_dumps_items [] = []"
| "demo_dumps_items [(k, v)] = [CHR 0x22] @ k @ [CHR 0x22] @ '': '' @ demo_dumps v"
| "demo_dumps_items ((k, v) # kv # items) =
     [CHR 0x22] @ k @ [CHR 0x22] @ '': '' @ demo_dumps v @ '', '' @ demo_dumps_items (kv # items)"

definition is_ws :: "char \<Rightarrow> bool" where
  "is_ws c = (c = CHR '' '' \<or> c = CHR 0x0A \<or> c = CHR 0x0D \<or> c = CHR 0x09)"

definition is_digit :: "char \<Rightarrow> bool" where
  "is_digit c = ((48::nat) \<le> of_char c \<and> (of_char c :: nat) \<le> 57)"

definition plain_char :: "char \<Rightarrow> bool" where
  "plain_char c = ((32::nat) \<le> of_char c \<and> (of_char c :: nat) < 128
                   \<and> c \<noteq> CHR 0x22 \<and> c \<noteq> CHR 0x5C)"

definition nat_of_digits :: "string \<Rightarrow> nat" where
  "nat_of_digits ds = fold (\<lambda>c n. 10 * n + (of_char c - 48)) ds 0"

text \<open>An int: digits without a leading zero, and no fraction or exponent after them.\<close>

definition parse_nat :: "string \<Rightarrow> (nat \<times> string) option" where
  "parse_nat s =
     (let ds = takeWhile is_digit s; r = dropWhile is_digit s in
      if ds = [] \<or> (1 < length ds \<and> hd ds = CHR ''0'') then None
      else if r \<noteq> [] \<and> (hd r = CHR ''.'' \<or> hd r = CHR ''e'' \<or> hd r = CHR ''E'') then None
      else Some (nat_of_digits ds, r))"

text \<open>The characters of a string up to its closing quote.\<close>

definition parse_string :: "string \<Rightarrow> (string \<times> string) option" where
  "parse_string s =
     (let body = takeWhile plain_char s; r = dropWhile plain_char s in
      if r \<noteq> [] \<and> hd r = CHR 0x22 then Some (body, tl r) else None)"

text \<open>\<^verbatim>\<open>d[k] = v\<close> on a dict kept in insertion order.\<close>

fun dict_set :: "string \<Rightarrow> json \<Rightarrow> (string \<times> json) list \<Rightarrow> (string \<times> json) list" where
  "dict_set k v [] = [(k, v)]"
| "dict_set k v ((k', v') # items) =
     (if k = k' then (k, v) # items else (k', v') # dict_set k v items)"

text \<open>A recursive-descent reader; the first argument bounds the nesting depth and the
  number of elements, and the length of the text is enough.\<close>

fun parse_value :: "nat \<Rightarrow> string \<Rightarrow> (json \<times> string) option"
  and parse_elements :: "nat \<Rightarrow> string \<Rightarrow> (json list \<times> string) option"
  and parse_members ::
    "nat \<Rightarrow> (string \<times> json) list \<Rightarrow> string \<Rightarrow> ((string \<times> json) list \<times> string) option" where
  "parse_value 0 s = None"
| "parse_value (Suc n) s =
     (case dropWhile is_ws s of
        [] \<Rightarrow> None
      | c # r \<Rightarrow>
          if c = CHR ''['' then
            (if dropWhile is_ws r \<noteq> [] \<and> hd (dropWhile is_ws r) = CHR '']''
             then Some (JArr [], tl (dropWhile is_ws r))
             else map_option (\<lambda>(xs, r'). (JArr xs, r')) (parse_elements n r))
          else if c = CHR ''{'' then
            (if dropWhile is_ws r \<noteq> [] \<and> hd (dropWhile is_ws r) = CHR ''}''
             then Some (JObj [], tl (dropWhile is_ws r))
             else map_option (\<lambda>(items, r'). (JObj items, r')) (parse_members n [] r))
          else if c = CHR 0x22 then
            map_option (\<lambda>(str, r'). (JStr str, r')) (parse_string r)
          else if c = CHR ''-'' then
            map_option (\<lambda>(k, r'). (JNum (PyInt (- int k)), r')) (parse_nat r)
          else if is_digit c then
            map_option (\<lambda>(k, r'). (JNum (PyInt (int k)), r')) (parse_nat (c # r))
          else if take 4 (c # r) = ''null'' then Some (JNull, drop 4 (c # r))
          else if take 4 (c # r) = ''true'' then Some (JBool True, drop 4 (c # r))
          else if take 5 (c # r) = ''false'' then Some (JBool False, drop 5 (c # r))
          else None)"
| "parse_elements 0 s = None"
| "parse_elements (Suc n) s =
     (case parse_value n s of
        None \<Rightarrow> None
      | Some (x, r) \<Rightarrow>
          (case dropWhile is_ws r of
             [] \<Rightarrow> None
           | c # r' \<Rightarrow>
               if c = CHR '']'' then Some ([x], r')
               else if c = CHR '','' then
                 map_option (\<lambda>(xs, r''). (x # xs, r'')) (parse_elements n r')
               else None))"
| "parse_members 0 items s = None"
| "parse_members (Suc n) items s =
     (case dropWhile is_ws s of
        [] \<Rightarrow> None
      | q # r \<Rightarrow>
          if q \<noteq> CHR 0x22 then None
          else
            (case parse_string r of
               None \<Rightarrow> None
             | Some (k, r1) \<Rightarrow>
                 (case dropWhile is_ws r1 of
                    [] \<Rightarrow> None
                  | colon # r2 \<Rightarrow>
                      if colon \<noteq> CHR '':'' then None
                      else
                        (case parse_value n r2 of
                           None \<Rightarrow> None
                         | Some (v, r3) \<Rightarrow>
                             (case dropWhile is_ws r3 of
                                [] \<Rightarrow> None
                              | c # r4 \<Rightarrow>
                                  if c = CHR ''}'' then Some (dict_set k v items, r4)
                                  else if c = CHR '','' then
                                    parse_members n (dict_set k v items) r4
                                  else None)))))"

definition demo_loads :: "string \<Rightarrow> py_error + json" where
  "demo_loads s =
     (case parse_value (Suc (length s)) s of
        Some (v, r) \<Rightarrow> if dropWhile is_ws r = [] then Inr v else Inl ValueError
      | None \<Rightarrow> Inl ValueError)"

text \<open>The payload \<^verbatim>\<open>{"table":{"rows":[[10,10,1],[10,12,3]]}}\<close> and its decoded value.\<close>

definition demo_payload :: string where
  "demo_payload = ''{'' @ [CHR 0x22] @ ''table'' @ [CHR 0x22] @ '':{'' @ [CHR 0x22] @ ''rows''
     @ [CHR 0x22] @ '':[[10,10,1],[10,12,3]]}}''"

definition demo_rows :: json where
  "demo_rows = JArr [JArr [JNum (PyInt 10), JNum (PyInt 10), JNum (PyInt 1)],
                     JArr [JNum (PyInt 10), JNum (PyInt 12), JNum (PyInt 3)]]"

definition demo_document :: json where
  "demo_document = JObj [(''table'', JObj [(''rows'', demo_rows)])]"

text \<open>A payload whose rows are no triples:
  \<^verbatim>\<open>{"table":{"rows":[[1,2],"x",7]}}\<close>.\<close>

definition ragged_payload :: string where
  "ragged_payload = ''{'' @ [CHR 0x22] @ ''table'' @ [CHR 0x22] @ '':{'' @ [CHR 0x22] @ ''rows''
     @ [CHR 0x22] @ '':[[1,2],'' @ [CHR 0x22] @ ''x'' @ [CHR 0x22] @ '',7]}}''"

definition demo_env :: env where
  "demo_env =
     \<lparr>image_new = (\<lambda>w h. if w < 0 \<or> h < 0 then Inl ValueError else Inr ()),
      image_save = (\<lambda>name im. Inr (''image '' @ str_int (fst (im_size im)) @ ''x''
                                     @ str_int (snd (im_size im)))),
      urlopen = (\<lambda>url. Inr demo_payload),
      json_loads = demo_loads,
      json_dumps = demo_dumps,
      str_num = demo_str_num\<rparr>"

definition empty_world :: world where
  "empty_world = \<lparr>files = Map.empty, events = []\<rparr>"

text \<open>The twelve samples of the docstring of \<open>generate_map\<close>.\<close>

definition docstring_samples :: "sample list" where
  "docstring_samples =
     [(10, 10, 1), (10, 12, 1), (10, 14, 2), (12, 10, 1), (12, 12, 3), (12, 14, 1),
      (14, 10, 6), (14, 12, 9), (14, 14, 12), (16, 10, 1), (16, 12, 1), (16, 14, 3)]"

text \<open>The commented call at the end of \<^verbatim>\<open>heatmapper.py\<close>, with int latitudes and a given
  longitude stride, run twice in a row from an empty world.\<close>

definition demo_params :: topo_params where
  "demo_params = (PyInt 57, PyInt 60, PyInt 0, PyInt 22, PyInt 29, PyInt 2)"



section \<open>Properties of the rounding\<close>

lemma pow2_pos: "0 < pow2 e"
  by (simp add: pow2_def)

lemma pow2_add: "pow2 (a + b) = pow2 a * pow2 b"
proof -
  have "pow2 e = 2 powi e" for e
    by (simp add: pow2_def power_int_def inverse_eq_divide power_one_over)
  then show ?thesis by (simp add: power_int_add)
qed

lemma pow2_mono: "a \<le> b \<Longrightarrow> pow2 a \<le> pow2 b"
proof -
  assume "a \<le> b"
  then obtain n where b: "b = a + int n" by (metis zle_iff_zadd)
  have "1 \<le> pow2 (int n)" by (simp add: pow2_def)
  then show ?thesis using pow2_pos[of a] by (simp add: b pow2_add)
qed

lemma pow2_less_cancel: "pow2 a < pow2 b \<Longrightarrow> a < b"
  using pow2_mono[of b a] by (cases "a < b") auto

lemma round_half_even_le:
  assumes "x \<le> of_int k"
  shows "round_half_even x \<le> k"
proof -
  have "x < of_int k + 1" using assms by simp
  then have lo: "\<lfloor>x\<rfloor> \<le> k" by (simp add: floor_le_iff)
  have up: "\<lfloor>x\<rfloor> + 1 \<le> k" if "0 < x - of_int \<lfloor>x\<rfloor>"
  proof -
    from that have "of_int \<lfloor>x\<rfloor> < x" by simp
    with assms have "(of_int \<lfloor>x\<rfloor> :: rat) < of_int k" by linarith
    then show ?thesis by simp
  qed
  show ?thesis
  proof (cases "x - of_int \<lfloor>x\<rfloor> < 1 / 2")
    case True
    then show ?thesis using lo by (simp add: round_half_even_def Let_def)
  next
    case False
    then have "0 < x - of_int \<lfloor>x\<rfloor>" by simp
    then have "\<lfloor>x\<rfloor> + 1 \<le> k" by (rule up)
    then show ?thesis using lo by (simp add: round_half_even_def Let_def)
  qed
qed

lemma round_half_even_ge:
  assumes "of_int k \<le> x"
  shows "k \<le> round_half_even x"
proof -
  have "k \<le> \<lfloor>x\<rfloor>" using assms by (simp add: le_floor_iff)
  then show ?thesis by (simp add: round_half_even_def Let_def)
qed

lemma ilog2_lower: assumes "0 < x" shows "pow2 (ilog2 x) \<le> x"
proof -
  obtain p q where pq: "quotient_of x = (p, q)" by (cases "quotient_of x")
  then have q: "0 < q" and x: "x = of_int p / of_int q"
    using quotient_of_denom_pos quotient_of_div by blast+
  with assms have p: "0 < p" by (simp add: zero_less_divide_iff)
  define e where "e = bitlen p - bitlen q"
  show ?thesis
  proof (cases "x < pow2 e")
    case False
    then show ?thesis by (simp add: ilog2_def pq e_def Let_def)
  next
    case True
    have bp: "1 \<le> bitlen p" "1 \<le> bitlen q" using p q by (auto simp: bitlen_alt_def)
    have "(2::int) ^ nat (bitlen p - 1) \<le> p" using bitlen_bounds[OF p] by simp
    then have 1: "pow2 (bitlen p - 1) \<le> of_int p"
      using bp by (simp add: pow2_def)
    have "q < 2 ^ nat (bitlen q)" using bitlen_bounds[OF q] by simp
    then have 2: "of_int q \<le> pow2 (bitlen q)"
      using bp by (simp add: pow2_def)
    have "pow2 (e - 1) * pow2 (bitlen q) = pow2 (bitlen p - 1)"
      by (simp add: e_def pow2_add[symmetric])
    moreover have "pow2 (e - 1) * of_int q \<le> pow2 (e - 1) * pow2 (bitlen q)"
      using 2 pow2_pos[of "e - 1"] by (intro mult_left_mono) simp_all
    ultimately have "pow2 (e - 1) * of_int q \<le> of_int p"
      using 1 by simp
    then have "pow2 (e - 1) \<le> x" using q by (simp add: x pos_le_divide_eq)
    with True show ?thesis by (simp add: ilog2_def pq e_def Let_def)
  qed
qed

lemma ilog2_upper: assumes "0 < x" shows "x < pow2 (ilog2 x + 1)"
proof -
  obtain p q where pq: "quotient_of x = (p, q)" by (cases "quotient_of x")
  then have q: "0 < q" and x: "x = of_int p / of_int q"
    using quotient_of_denom_pos quotient_of_div by blast+
  with assms have p: "0 < p" by (simp add: zero_less_divide_iff)
  define e where "e = bitlen p - bitlen q"
  show ?thesis
  proof (cases "x < pow2 e")
    case True
    then show ?thesis by (simp add: ilog2_def pq e_def Let_def)
  next
    case False
    have bp: "1 \<le> bitlen p" "1 \<le> bitlen q" using p q by (auto simp: bitlen_alt_def)
    have "p < 2 ^ nat (bitlen p)" using bitlen_bounds[OF p] by simp
    then have 1: "of_int p < pow2 (bitlen p)"
      using bp by (simp add: pow2_def)
    have "(2::int) ^ nat (bitlen q - 1) \<le> q" using bitlen_bounds[OF q] by simp
    then have 2: "pow2 (bitlen q - 1) \<le> of_int q"
      using bp by (simp add: pow2_def)
    have "pow2 (e + 1) * pow2 (bitlen q - 1) = pow2 (bitlen p)"
      by (simp add: e_def pow2_add[symmetric])
    moreover have "pow2 (e + 1) * pow2 (bitlen q - 1) \<le> pow2 (e + 1) * of_int q"
      using 2 pow2_pos[of "e + 1"] by (intro mult_left_mono) simp_all
    ultimately have "of_int p < pow2 (e + 1) * of_int q"
      using 1 by simp
    then have "x < pow2 (e + 1)" using q by (simp add: x pos_divide_less_eq)
    with False show ?thesis by (simp add: ilog2_def pq e_def Let_def)
  qed
qed

lemma fl_nonneg: "0 \<le> x \<Longrightarrow> 0 \<le> fl x"
proof -
  assume x: "0 \<le> x"
  have "of_int 0 \<le> x / pow2 (quantum x)" using x pow2_pos[of "quantum x"] by simp
  then have "0 \<le> round_half_even (x / pow2 (quantum x))" by (rule round_half_even_ge)
  then show ?thesis using pow2_pos[of "quantum x"] by (simp add: fl_def)
qed

lemma fl_le_multiple:
  assumes "x \<le> of_int m * pow2 (quantum x)"
  shows "fl x \<le> of_int m * pow2 (quantum x)"
proof (cases "x = 0")
  case True
  with assms show ?thesis by (simp add: fl_def)
next
  case False
  have "x / pow2 (quantum x) \<le> of_int m"
    using assms pow2_pos[of "quantum x"] by (simp add: pos_divide_le_eq)
  then have "round_half_even (x / pow2 (quantum x)) \<le> m" by (rule round_half_even_le)
  then show ?thesis using False pow2_pos[of "quantum x"] by (simp add: fl_def)
qed

lemma fl_le_pow2:
  assumes "0 \<le> x" "x \<le> of_int k * pow2 n" "- 1074 \<le> n" "of_int k * pow2 n < pow2 (n + 53)"
  shows "fl x \<le> of_int k * pow2 n"
proof (cases "x = 0")
  case True
  with assms show ?thesis by (simp add: fl_def)
next
  case False
  with assms have x: "0 < x" by simp
  have "pow2 (ilog2 x) < pow2 (n + 53)" using ilog2_lower[OF x] assms by simp
  then have "ilog2 x < n + 53" by (rule pow2_less_cancel)
  then have qn: "quantum x \<le> n" using x assms(3) by (simp add: quantum_def)
  then obtain d where d: "n = quantum x + int d" by (metis zle_iff_zadd)
  have "pow2 (int d) = of_int (2 ^ d)" by (simp add: pow2_def)
  then have eq: "of_int k * pow2 n = of_int (k * 2 ^ d) * pow2 (quantum x)"
    by (simp add: d pow2_add)
  show ?thesis using fl_le_multiple[of x "k * 2 ^ d"] assms(2) unfolding eq by simp
qed

lemma fl_le_int:
  assumes "0 \<le> x" "x \<le> of_int k" "k < 2 ^ 53"
  shows "fl x \<le> of_int k"
proof -
  have "(of_int k :: rat) < of_int (2 ^ 53)" using assms(3) by (simp only: of_int_less_iff)
  then have "(of_int k :: rat) * pow2 0 < pow2 (0 + 53)" by (simp add: pow2_def)
  then show ?thesis using fl_le_pow2[of x k 0] assms by (simp add: pow2_def)
qed


text \<open>The overflow threshold \<open>2^1024\<close> written out, so that \<open>to_double\<close> evaluates on a
  concrete number without computing the power.\<close>

lemma pow2_1024:
  "pow2 1024 = 179769313486231590772930519078902473361797697894230657273430081157732675805500963132708477322407536021120113879871393357658789768814416622492847430639474124377767893424865485276302219601246094119453082952085005768838150682342462881473913110540827237163350510684586298239947245938479716304835356329624224137216"
  by (simp add: pow2_def)

lemma to_double_code [code]:
  "to_double x = (let r = fl x in
     if 179769313486231590772930519078902473361797697894230657273430081157732675805500963132708477322407536021120113879871393357658789768814416622492847430639474124377767893424865485276302219601246094119453082952085005768838150682342462881473913110540827237163350510684586298239947245938479716304835356329624224137216 \<le> r then PInf
     else if r \<le> - 179769313486231590772930519078902473361797697894230657273430081157732675805500963132708477322407536021120113879871393357658789768814416622492847430639474124377767893424865485276302219601246094119453082952085005768838150682342462881473913110540827237163350510684586298239947245938479716304835356329624224137216 then NInf
     else Fin r)"
  by (simp only: to_double_def pow2_1024)

lemma pow2_1024_gt:
  assumes "k < 2 ^ 53"
  shows "of_int k < pow2 1024"
proof -
  have "(of_int k :: rat) < of_int (2 ^ 53)" using assms by (simp only: of_int_less_iff)
  also have "\<dots> = pow2 53" by (simp add: pow2_def)
  also have "\<dots> \<le> pow2 1024" by (rule pow2_mono) simp
  finally show ?thesis .
qed

lemma to_double_bounded:
  assumes "0 \<le> x" "x \<le> of_int k" "k < 2 ^ 53"
  shows "to_double x = Fin (fl x)" and "0 \<le> fl x" and "fl x \<le> of_int k"
proof -
  show lo: "0 \<le> fl x" using assms(1) by (rule fl_nonneg)
  show hi: "fl x \<le> of_int k" using assms by (rule fl_le_int)
  have "fl x < pow2 1024" using hi pow2_1024_gt[OF assms(3)] by simp
  moreover have "- pow2 1024 < fl x" using lo pow2_pos[of 1024] by simp
  ultimately show "to_double x = Fin (fl x)" by (simp add: to_double_def Let_def)
qed

text \<open>The quotient of two ints \<open>0 \<le> a \<le> b\<close>, \<open>0 < b\<close>, is a float between 0 and 1.\<close>

lemma int_truediv_unit:
  assumes "0 \<le> a" "a \<le> b" "0 < b"
  shows "int_truediv a b = Inr (fl (of_int a / of_int b))"
    and "0 \<le> fl (of_int a / of_int b)" and "fl (of_int a / of_int b) \<le> 1"
proof -
  have 1: "(0::rat) \<le> of_int a / of_int b" using assms by simp
  have 2: "(of_int a / of_int b :: rat) \<le> of_int 1" using assms by simp
  note d = to_double_bounded[OF 1 2]
  show "int_truediv a b = Inr (fl (of_int a / of_int b))"
    using assms(3) d(1) by (simp add: int_truediv_def)
  show "0 \<le> fl (of_int a / of_int b)" using d(2) by simp
  show "fl (of_int a / of_int b) \<le> 1" using d(3) by simp
qed

text \<open>Scaling a float between 0 and 1 by 255 and truncating gives an int from 0 to 255.\<close>

lemma scale_255:
  assumes "0 \<le> q" "q \<le> 1"
  shows "int_of_float (float_mul q 255) = Inr \<lfloor>fl (q * 255)\<rfloor>"
    and "0 \<le> \<lfloor>fl (q * 255)\<rfloor>" and "\<lfloor>fl (q * 255)\<rfloor> \<le> 255"
proof -
  have 1: "0 \<le> q * 255" using assms by simp
  have 2: "q * 255 \<le> of_int 255" using assms by simp
  note d = to_double_bounded[OF 1 2]
  show "int_of_float (float_mul q 255) = Inr \<lfloor>fl (q * 255)\<rfloor>"
    using d(1,2) by (simp add: int_of_float_def float_mul_def)
  show "0 \<le> \<lfloor>fl (q * 255)\<rfloor>" using d(2) by simp
  have "fl (q * 255) \<le> 255" using d(3) by simp
  then show "\<lfloor>fl (q * 255)\<rfloor> \<le> 255" by (simp add: floor_le_iff)
qed

lemma calculate_color_negative:
  assumes "h < 0" "mn \<le> h"
  shows "calculate_color h mn mx =
           Inr (0, 0, 255 - \<lfloor>fl (fl (of_int \<bar>h\<bar> / of_int \<bar>mn\<bar>) * 255)\<rfloor>)"
proof -
  have a: "0 \<le> \<bar>h\<bar>" "\<bar>h\<bar> \<le> \<bar>mn\<bar>" "0 < \<bar>mn\<bar>" using assms by simp_all
  note q = int_truediv_unit[OF a]
  note s = scale_255[OF q(2) q(3)]
  have "calculate_color h mn mx =
          and_then (int_truediv \<bar>h\<bar> \<bar>mn\<bar>) (\<lambda>q.
          and_then (int_of_float (float_mul q 255)) (\<lambda>n. Inr (0, 0, 255 - n)))"
    using assms(1) by (simp only: calculate_color_def Let_def if_True)
  also have "\<dots> = Inr (0, 0, 255 - \<lfloor>fl (fl (of_int \<bar>h\<bar> / of_int \<bar>mn\<bar>) * 255)\<rfloor>)"
    by (simp only: q(1) s(1) and_then_def sum.case)
  finally show ?thesis .
qed

lemma calculate_color_nonnegative:
  assumes "0 \<le> h" "h \<le> mx" "0 < mx"
  shows "calculate_color h mn mx =
           Inr (0, 255 - \<lfloor>fl (fl (of_int h / of_int mx) * 255)\<rfloor>, 0)"
proof -
  note q = int_truediv_unit[OF assms]
  note s = scale_255[OF q(2) q(3)]
  have "\<not> h < 0" using assms(1) by simp
  then have "calculate_color h mn mx =
          and_then (int_truediv h mx) (\<lambda>q.
          and_then (int_of_float (float_mul q 255)) (\<lambda>n. Inr (0, 255 - n, 0)))"
    by (simp only: calculate_color_def Let_def if_False)
  also have "\<dots> = Inr (0, 255 - \<lfloor>fl (fl (of_int h / of_int mx) * 255)\<rfloor>, 0)"
    by (simp only: q(1) s(1) and_then_def sum.case)
  finally show ?thesis .
qed

lemma calculate_color_zero_division:
  "0 \<le> h \<Longrightarrow> calculate_color h mn 0 = Inl ZeroDivisionError"
  "h < 0 \<Longrightarrow> calculate_color h 0 mx = Inl ZeroDivisionError"
  by (simp_all add: calculate_color_def and_then_def int_truediv_def)

lemma calculate_color_in_range:
  assumes "mn \<le> h" and "h \<le> mx" and "if h < 0 then mn \<noteq> 0 else mx \<noteq> 0"
  shows "\<exists>c. 0 \<le> c \<and> c \<le> 255 \<and>
             calculate_color h mn mx = Inr (if h < 0 then (0, 0, c) else (0, c, 0))"
proof (cases "h < 0")
  case True
  have a: "0 \<le> \<bar>h\<bar>" "\<bar>h\<bar> \<le> \<bar>mn\<bar>" "0 < \<bar>mn\<bar>" using True assms(1) by simp_all
  note q = int_truediv_unit[OF a]
  note s = scale_255[OF q(2) q(3)]
  let ?c = "255 - \<lfloor>fl (fl (of_int \<bar>h\<bar> / of_int \<bar>mn\<bar>) * 255)\<rfloor>"
  have "0 \<le> ?c" "?c \<le> 255" using s(2,3) by simp_all
  moreover have "calculate_color h mn mx = Inr (0, 0, ?c)"
    using True assms(1) by (rule calculate_color_negative)
  ultimately show ?thesis using True by auto
next
  case False
  then have b: "0 \<le> h" "h \<le> mx" "0 < mx" using assms by simp_all
  note q = int_truediv_unit[OF b]
  note s = scale_255[OF q(2) q(3)]
  let ?c = "255 - \<lfloor>fl (fl (of_int h / of_int mx) * 255)\<rfloor>"
  have "0 \<le> ?c" "?c \<le> 255" using s(2,3) by simp_all
  moreover have "calculate_color h mn mx = Inr (0, ?c, 0)"
    using b by (rule calculate_color_nonnegative)
  ultimately show ?thesis using False by auto
qed

section \<open>Basic facts about the operations\<close>


lemma seq_pure_Inl: "seq (pure (Inl e)) f w = (Inl e, w)"
  by (simp add: seq_def pure_def)



lemma get_topo_data_rows:
  assumes "json_loads env s = Inr (JObj members)"
    and "map_of members ''table'' = Some (JObj tbl)"
    and "map_of tbl ''rows'' = Some rows"
  shows "get_topo_data_from_string env s = Inr rows"
  using assms by (simp add: get_topo_data_from_string_def and_then_def py_getitem_def)

lemma demo_loads_payload: "demo_loads demo_payload = Inr demo_document"
  by code_simp

lemma demo_loads_ragged:
  "demo_loads ragged_payload =
     Inr (JObj [(''table'', JObj [(''rows'',
            JArr [JArr [JNum (PyInt 1), JNum (PyInt 2)], JStr ''x'', JNum (PyInt 7)])])])"
  by code_simp

lemma read_json_from_file_present:
  assumes "files w name = Some payload"
  shows "read_json_from_file env name w =
           (case json_loads env payload of
              Inl e \<Rightarrow> Inl e
            | Inr v \<Rightarrow> Inr (Some (json_dumps env v)),
            w\<lparr>events := events w @ [Read name]\<rparr>)"
  using assms by (simp add: read_json_from_file_def and_then_def)

lemma read_json_from_file_absent:
  "files w name = None \<Longrightarrow> read_json_from_file env name w = (Inr None, w)"
  by (simp add: read_json_from_file_def)

lemma dumps_differs: "demo_dumps demo_document \<noteq> demo_payload"
  by code_simp

lemma effective_stride_given:
  "num_value stride \<noteq> 0 \<Longrightarrow> effective_stride stride min_v max_v image_height = Inr stride"
  by (simp add: effective_stride_def)

lemma int_of_max_1:
  "int_of_float (py_max_1 (Fin q)) = Inr (max 1 \<lfloor>q\<rfloor>)"
proof (cases "1 < q")
  case True
  then have "1 \<le> \<lfloor>q\<rfloor>" by (simp add: le_floor_iff)
  then show ?thesis using True by (simp add: py_max_1_def int_of_float_def)
next
  case False
  then have "\<lfloor>q\<rfloor> \<le> 1" by (simp add: floor_le_iff)
  then show ?thesis using False by (simp add: py_max_1_def int_of_float_def)
qed

lemma effective_stride_auto:
  assumes "num_value stride = 0" and "stride_quotient max_v min_v image_height = Inr (Fin q)"
  shows "effective_stride stride min_v max_v image_height = Inr (PyInt (max 1 \<lfloor>q\<rfloor>))"
  using assms by (simp add: effective_stride_def and_then_def int_of_max_1)

lemma effective_stride_zero_height:
  assumes "num_value stride = 0" and "sub_as_float max_v min_v = Inr d"
  shows "effective_stride stride min_v max_v 0 = Inl ZeroDivisionError"
proof -
  have "default_cell_degrees \<noteq> 0" by code_simp
  moreover have "float_of_int 0 = Inr 0" by code_simp
  ultimately show ?thesis using assms
    by (simp add: effective_stride_def stride_quotient_def and_then_def float_div_def
             split: pyfloat.splits)
qed

section \<open>Facts about the grid loop\<close>










section \<open>Facts about the cache and the entry point\<close>

lemma fetches_append:
  "fetches (w\<lparr>events := events w @ es\<rparr>) =
     fetches w @ concat (map (\<lambda>e. case e of Fetch url \<Rightarrow> [url] | _ \<Rightarrow> []) es)"
  by (simp add: fetches_def)




lemma render_from_cache_never_False:
  "fst (render_from_cache env cache image_width image_height filename w) \<noteq> Inr False"
  unfolding render_from_cache_def seq_def pure_def
  by (auto split: sum.splits option.splits prod.splits)


section \<open>Claims about the colour scale\<close>

text \<open>
  C2. For an altitude \<open>h\<close> between the extremes \<open>mn\<close> and \<open>mx\<close> of the sample set,
  \<open>calculate_color\<close> returns \<open>(0, 0, 255 - floor((|h| / |mn|) * 255))\<close> when \<open>h < 0\<close>
  (then \<open>mn < 0\<close>) and \<open>(0, 255 - floor((h / mx) * 255), 0)\<close> when \<open>h \<ge> 0\<close> and
  \<open>mx > 0\<close>. The quotient and the product are the float operations of the source, so
  each is rounded by \<open>fl\<close>; \<^verbatim>\<open>int()\<close> agrees with the floor because the product is not
  negative.
\<close>

theorem calculate_color_formula:
  "(h < 0 \<longrightarrow> mn \<le> h \<longrightarrow>
      calculate_color h mn mx =
        Inr (0, 0, 255 - \<lfloor>fl (fl (of_int \<bar>h\<bar> / of_int \<bar>mn\<bar>) * 255)\<rfloor>)) \<and>
   (0 \<le> h \<longrightarrow> h \<le> mx \<longrightarrow> 0 < mx \<longrightarrow>
      calculate_color h mn mx =
        Inr (0, 255 - \<lfloor>fl (fl (of_int h / of_int mx) * 255)\<rfloor>, 0))"
  using calculate_color_negative calculate_color_nonnegative by blast

theorem calculate_color_formula_witness:
  "calculate_color (- 5) (- 12) 9 = Inr (0, 0, 149) \<and> calculate_color 1 (- 12) 3 = Inr (0, 170, 0)"
proof -
  have "\<lfloor>fl (fl (of_int \<bar>- 5\<bar> / of_int \<bar>- 12\<bar>) * 255)\<rfloor> = 106" by code_simp
  moreover have "\<lfloor>fl (fl (of_int 1 / of_int 3) * 255)\<rfloor> = 85" by code_simp
  ultimately show ?thesis
    using calculate_color_formula[of "- 5" "- 12" 9] calculate_color_formula[of 1 "- 12" 3]
    by simp
qed

text \<open>
  C3 as the code has it. \<open>calculate_color\<close> has no guard on its divisor: with an altitude
  \<open>\<ge> 0\<close> and a maximum of 0, and with an altitude \<open>< 0\<close> and a minimum of 0, the
  division raises \<^verbatim>\<open>ZeroDivisionError\<close>; no colour is returned.
\<close>

theorem calculate_color_unguarded:
  "(0 \<le> h \<longrightarrow> calculate_color h mn 0 = Inl ZeroDivisionError) \<and>
   (h < 0 \<longrightarrow> calculate_color h 0 mx = Inl ZeroDivisionError)"
  using calculate_color_zero_division by blast

theorem calculate_color_unguarded_witness:
  "calculate_color 4 (- 2) 0 = Inl ZeroDivisionError \<and>
   calculate_color (- 4) 0 9 = Inl ZeroDivisionError"
  using calculate_color_unguarded[of 4 "- 2"] calculate_color_unguarded[of "- 4" 9] by simp

text \<open>
  C3 as the specification states it fails: for a flat sample set at sea level the
  altitude and the maximum are both 0 and the result is the exception, not the colour
  \<open>(0, 255, 0)\<close>; for a negative altitude and a minimum of 0 it is the exception, not
  \<open>(0, 0, 255)\<close>.
\<close>

theorem calculate_color_guard_counterexample:
  "calculate_color 0 0 0 \<noteq> Inr (0, 255, 0) \<and> calculate_color (- 1) 0 0 \<noteq> Inr (0, 0, 255)"
  by (simp add: calculate_color_def and_then_def int_truediv_def)

text \<open>
  C5. For an altitude \<open>h\<close> with \<open>mn \<le> h \<le> mx\<close> and a non-zero divisor (\<open>mn\<close> for
  \<open>h < 0\<close>, \<open>mx\<close> otherwise), \<open>calculate_color\<close> returns a colour whose unused channels
  are 0 (red and green for \<open>h < 0\<close>, red and blue otherwise) and whose scaled channel
  lies between 0 and 255.
\<close>

theorem calculate_color_channels:
  assumes "mn \<le> h" and "h \<le> mx" and "if h < 0 then mn \<noteq> 0 else mx \<noteq> 0"
  shows "\<exists>c. 0 \<le> c \<and> c \<le> 255 \<and>
             calculate_color h mn mx = Inr (if h < 0 then (0, 0, c) else (0, c, 0))"
  using assms by (rule calculate_color_in_range)

theorem calculate_color_channels_witness:
  "\<exists>c. 0 \<le> c \<and> c \<le> 255 \<and> calculate_color (- 5) (- 12) 9 = Inr (0, 0, c)"
  using calculate_color_channels[of "- 12" "- 5" 9] by simp

section \<open>Claims about the grid\<close>




section \<open>Claims about the strides\<close>

text \<open>
  C6 as the code has it. A stride that is not 0 passes through unchanged. A stride of 0
  is replaced by \<^verbatim>\<open>int(max(1, q))\<close>, where \<open>q\<close> is the float quotient
  \<^verbatim>\<open>(max - min) / 0.0083333 / image_height\<close>, the image height dividing on both axes:
  whenever that quotient is a finite float the stride is \<open>max 1 (floor q)\<close>, the
  quotient truncated, not rounded to the nearest int.
\<close>

theorem effective_stride_truncates:
  "(num_value stride \<noteq> 0 \<longrightarrow>
      effective_stride stride min_v max_v image_height = Inr stride) \<and>
   (num_value stride = 0 \<longrightarrow> stride_quotient max_v min_v image_height = Inr (Fin q) \<longrightarrow>
      effective_stride stride min_v max_v image_height = Inr (PyInt (max 1 \<lfloor>q\<rfloor>)))"
  using effective_stride_given effective_stride_auto by blast

theorem effective_stride_truncates_witness:
  "effective_stride (PyInt 2) (PyInt 22) (PyInt 29) 10 = Inr (PyInt 2) \<and>
   effective_stride (PyInt 0) (PyFloat (115 / 2)) (PyInt 60) 10 = Inr (PyInt 30)"
proof -
  have q: "stride_quotient (PyInt 60) (PyFloat (115 / 2)) 10 = Inr (Fin (4222141539225997 / 140737488355328))"
    by code_simp
  have f: "\<lfloor>4222141539225997 / 140737488355328 :: rat\<rfloor> = 30" by code_simp
  show ?thesis
    using effective_stride_truncates[of "PyInt 2" "PyInt 22" "PyInt 29" 10]
      effective_stride_truncates[of "PyInt 0" "PyFloat (115 / 2)" "PyInt 60" 10
        "4222141539225997 / 140737488355328"] q f
    by simp
qed

text \<open>
  C6 as the specification states it, with \<^verbatim>\<open>round\<close>, fails: for latitudes from 0 to 15
  and an image height of 1000 the quotient is about 1.8; the code's stride is 1, the
  rounded stride is 2.
\<close>

theorem effective_stride_round_counterexample:
  "effective_stride (PyInt 0) (PyInt 0) (PyInt 15) 1000 = Inr (PyInt 1) \<and>
   spec_stride (PyInt 0) (PyInt 0) (PyInt 15) 1000 = Inr (PyInt 2)"
  by code_simp

section \<open>Claims about the renderer's failures\<close>

text \<open>
  C4 at the empty sample set. The sets of latitudes and longitudes are empty, the cell
  height is \<^verbatim>\<open>height / 0\<close>, and \<open>generate_map\<close> raises \<^verbatim>\<open>ZeroDivisionError\<close>, which
  \<^verbatim>\<open>except ValueError\<close> does not catch: the call does not return \<^verbatim>\<open>False\<close>, whatever
  the width, the height and the imaging library are. No file is written.
\<close>

theorem generate_map_empty_sample_set:
  "generate_map env [] width height filename w = (Inl ZeroDivisionError, w)"
  by (simp add: generate_map_def generate_map_try_def seq_def pure_def int_truediv_def)

text \<open>
  The same missed catch at a grid mismatch: the first eleven samples of the docstring
  still have four latitudes and three longitudes, the last cell reads
  \<^verbatim>\<open>all_heights[11]\<close>, and \<open>generate_map\<close> raises \<^verbatim>\<open>IndexError\<close>.
\<close>

lemma generate_map_eleven_samples:
  "length (butlast docstring_samples) = 11 \<and>
   card (set (map fst (butlast docstring_samples))) = 4 \<and>
   card (set (map (fst \<circ> snd) (butlast docstring_samples))) = 3 \<and>
   fst (generate_map demo_env (butlast docstring_samples) 100 100 ''mymap.png'' empty_world)
     = Inl IndexError"
  by code_simp

section \<open>Claims about the topography source\<close>

text \<open>
  C9 at a stored payload. The cache file holds the compact text
  \<^verbatim>\<open>{"table":{"rows":[[10,10,1],[10,12,3]]}}\<close>; \<open>read_json_from_file\<close> decodes it and
  returns the value encoded again, \<^verbatim>\<open>{"table": {"rows": [[10, 10, 1], [10, 12, 3]]}}\<close>,
  which is not the text that was stored.
\<close>

theorem read_json_from_file_reencodes:
  "fst (read_json_from_file demo_env ''cache.json''
          \<lparr>files = [''cache.json'' \<mapsto> demo_payload], events = []\<rparr>)
     = Inr (Some (demo_dumps demo_document))
   \<and> demo_dumps demo_document \<noteq> demo_payload"
  using dumps_differs
  by (simp add: read_json_from_file_present[of _ _ demo_payload] demo_env_def demo_loads_payload)

text \<open>
  C10. When the payload decodes to an object whose \<^verbatim>\<open>table\<close> member is an object with a
  \<^verbatim>\<open>rows\<close> member, \<open>get_topo_data_from_string\<close> returns the value of that member as it
  is, whatever it is: the rows are not inspected.
\<close>

theorem get_topo_data_from_string_passes_rows:
  assumes "json_loads env data_string = Inr (JObj members)"
    and "map_of members ''table'' = Some (JObj table)"
    and "map_of table ''rows'' = Some rows"
  shows "get_topo_data_from_string env data_string = Inr rows"
  using assms by (rule get_topo_data_rows)

theorem get_topo_data_from_string_passes_rows_witness:
  "get_topo_data_from_string demo_env ragged_payload =
     Inr (JArr [JArr [JNum (PyInt 1), JNum (PyInt 2)], JStr ''x'', JNum (PyInt 7)])"
proof -
  have "json_loads demo_env ragged_payload = Inr (JObj [(''table'', JObj [(''rows'',
            JArr [JArr [JNum (PyInt 1), JNum (PyInt 2)], JStr ''x'', JNum (PyInt 7)])])])"
    by (simp add: demo_env_def demo_loads_ragged)
  then show ?thesis
    using get_topo_data_from_string_passes_rows[of demo_env ragged_payload] by simp
qed

section \<open>Claims about the cache and the entry point\<close>



text \<open>
  C8 at a failing render. The cache delivers the two samples \<open>(10, 10, 1)\<close> and
  \<open>(10, 12, 3)\<close>; the image width is \<open>-100\<close>, which the imaging library rejects with
  \<^verbatim>\<open>ValueError\<close>. \<open>generate_map\<close> on these samples returns \<^verbatim>\<open>False\<close>, and
  \<open>generate_map_with_coordinates\<close>, which drops that value, returns \<^verbatim>\<open>True\<close>.
\<close>

theorem render_failure_reported_as_success:
  "as_samples demo_rows = Some [(10, 10, 1), (10, 12, 3)] \<and>
   fst (generate_map demo_env [(10, 10, 1), (10, 12, 3)] (- 100) 10 ''eesti.png'' empty_world)
     = Inr False \<and>
   fst (generate_map_with_coordinates demo_env demo_params (- 100) 10 ''eesti.png'' empty_world)
     = Inr True"
  by code_simp

end
